theory Spec2Isabelle
  imports Complex_Main
begin

section \<open>Configuration\<close>

text \<open>
  The program is one Lambda handler, \<^verbatim>\<open>src/index.js\<close>: for every configured image size
  it resolves a destination key from the key of the uploaded object, downloads the
  object, crops and resizes it with ImageMagick and uploads the result.

  JavaScript numbers are modelled as exact rationals. The crop rectangle is made of
  integers and of halves of integers, which binary floating point represents exactly;
  the scaling factor is a quotient, which floating point rounds, and the model does not.
  A decoded image has positive dimensions, and the theorems on the arithmetic assume so:
  a division by zero is \<open>Infinity\<close> or \<open>NaN\<close> in JavaScript and 0 here.
\<close>

record imageSize =
  name :: string
  width :: rat
  height :: rat
  crop :: bool

definition AWS_ACL :: string where
  "AWS_ACL = ''public-read''"

definition IMAGE_SIZES :: "imageSize list" where
  "IMAGE_SIZES =
    [\<lparr>name = ''large'', width = 640, height = 640, crop = False\<rparr>,
     \<lparr>name = ''large_square'', width = 640, height = 640, crop = True\<rparr>,
     \<lparr>name = ''medium'', width = 320, height = 320, crop = False\<rparr>,
     \<lparr>name = ''medium_square'', width = 320, height = 320, crop = True\<rparr>,
     \<lparr>name = ''thumb'', width = 120, height = 120, crop = False\<rparr>,
     \<lparr>name = ''thumb_square'', width = 120, height = 120, crop = True\<rparr>]"

section \<open>The arithmetic of \<^verbatim>\<open>transform\<close>\<close>

text \<open>
  \<^verbatim>\<open>gm(...).size\<close> hands the callback an object with the decoded \<^verbatim>\<open>width\<close> and
  \<^verbatim>\<open>height\<close>.
\<close>

record dims =
  size_width :: rat
  size_height :: rat

text \<open>
  The local variables of \<^verbatim>\<open>transform\<close> once the callback of \<^verbatim>\<open>size\<close> has computed them:
  the four arguments of \<^verbatim>\<open>crop\<close>, the scaling factor, and the two arguments of
  \<^verbatim>\<open>resize\<close> (the source's \<^verbatim>\<open>width\<close> and \<^verbatim>\<open>height\<close>).
\<close>

record geometry =
  cropWidth :: rat
  cropHeight :: rat
  xCrop :: rat
  yCrop :: rat
  scalingFactor :: rat
  resize_width :: rat
  resize_height :: rat

definition crop_rectangle :: "imageSize \<Rightarrow> dims \<Rightarrow> rat \<times> rat \<times> rat \<times> rat" where
  \<comment> \<open>lines 108 to 141; the result is (cropWidth, cropHeight, xCrop, yCrop)\<close>
  "crop_rectangle imageSize sz =
     (if crop imageSize then
        (if size_width sz > size_height sz
         then (size_height sz, size_height sz, (size_width sz - size_height sz) / 2, 0)
         else (size_width sz, size_width sz, 0, (size_height sz - size_width sz) / 2))
      else (size_width sz, size_height sz, 0, 0))"

definition transform_geometry :: "imageSize \<Rightarrow> dims \<Rightarrow> geometry" where
  \<comment> \<open>lines 108 to 149\<close>
  "transform_geometry imageSize sz =
     (case crop_rectangle imageSize sz of (cw, ch, x, y) \<Rightarrow>
        let sf = min (width imageSize / size_width sz) (height imageSize / size_height sz)
        in \<lparr>cropWidth = cw, cropHeight = ch, xCrop = x, yCrop = y,
            scalingFactor = sf,
            resize_width = sf * size_width sz,
            resize_height = sf * size_height sz\<rparr>)"

section \<open>Strings\<close>

text \<open>
  A \<^typ>\<open>string\<close> is a list of bytes and stands for the UTF-8 encoding of a JavaScript
  string. The handler only splits at \<^verbatim>\<open>/\<close>, replaces \<^verbatim>\<open>+\<close>, searches for the last
  \<^verbatim>\<open>.\<close>, concatenates and compares: all of it acts alike on the encoding, whose
  multi-byte sequences contain no ASCII byte.
\<close>

fun split_from :: "char \<Rightarrow> string \<Rightarrow> string \<Rightarrow> string list" where
  \<comment> \<open>the segments of a string, \<open>cur\<close> being the segment read so far\<close>
  "split_from sep cur [] = [cur]"
| "split_from sep cur (c # cs) =
     (if c = sep then cur # split_from sep [] cs else split_from sep (cur @ [c]) cs)"

definition split :: "string \<Rightarrow> char \<Rightarrow> string list" where
  \<comment> \<open>\<^verbatim>\<open>s.split(sep)\<close> with a separator of one character\<close>
  "split s sep = split_from sep [] s"

definition index :: "'a list \<Rightarrow> nat \<Rightarrow> 'a option" where
  \<comment> \<open>\<^verbatim>\<open>xs[i]\<close>: \<^verbatim>\<open>undefined\<close>, here \<open>None\<close>, out of range\<close>
  "index xs i = (if i < length xs then Some (xs ! i) else None)"

definition to_string :: "string option \<Rightarrow> string" where
  \<comment> \<open>what string concatenation makes of a value that is a string or \<^verbatim>\<open>undefined\<close>\<close>
  "to_string v = (case v of None \<Rightarrow> ''undefined'' | Some s \<Rightarrow> s)"

definition replace_plus :: "string \<Rightarrow> string" where
  \<comment> \<open>\<^verbatim>\<open>s.replace(/\+/g, " ")\<close>\<close>
  "replace_plus s = map (\<lambda>c. if c = CHR ''+'' then CHR '' '' else c) s"

subsection \<open>\<^verbatim>\<open>decodeURIComponent\<close>\<close>

text \<open>
  The built-in function decodes every escape \<^verbatim>\<open>%XY\<close>. An escaped byte below 128 is one
  character; a higher one starts a UTF-8 sequence of two to four escaped bytes, which must
  encode a Unicode code point. It throws \<^verbatim>\<open>URIError\<close>, here \<open>None\<close>, on anything else
  that starts with \<^verbatim>\<open>%\<close>.
\<close>

definition hexDigit :: "char \<Rightarrow> nat option" where
  "hexDigit c =
     (let n = (of_char c :: nat) in
      if 48 \<le> n \<and> n \<le> 57 then Some (n - 48)
      else if 65 \<le> n \<and> n \<le> 70 then Some (n - 55)
      else if 97 \<le> n \<and> n \<le> 102 then Some (n - 87)
      else None)"

fun escape :: "string \<Rightarrow> (nat \<times> string) option" where
  \<comment> \<open>the byte of a leading \<^verbatim>\<open>%XY\<close>, and what follows it\<close>
  "escape (p # a # b # rest) =
     (if p = CHR ''%'' then
        (case hexDigit a of None \<Rightarrow> None
         | Some x \<Rightarrow> (case hexDigit b of None \<Rightarrow> None | Some y \<Rightarrow> Some (16 * x + y, rest)))
      else None)"
| "escape _ = None"

fun continuation :: "nat \<Rightarrow> string \<Rightarrow> (nat list \<times> string) option" where
  \<comment> \<open>\<open>n\<close> escaped continuation bytes, each of the form \<^verbatim>\<open>10xxxxxx\<close>\<close>
  "continuation 0 s = Some ([], s)"
| "continuation (Suc n) s =
     (case escape s of None \<Rightarrow> None
      | Some (b, rest) \<Rightarrow>
          if 128 \<le> b \<and> b < 192 then
            (case continuation n rest of None \<Rightarrow> None
             | Some (bs, rest') \<Rightarrow> Some (b # bs, rest'))
          else None)"

definition codePoint :: "nat \<Rightarrow> nat list \<Rightarrow> nat" where
  \<comment> \<open>the payload bits of the leading byte, then six bits of each continuation byte\<close>
  "codePoint lead bs = foldl (\<lambda>v b. 64 * v + (b - 128)) lead bs"

definition octets :: "string \<Rightarrow> (string \<times> string) option" where
  \<comment> \<open>one escaped character: its bytes, and what follows it\<close>
  "octets s =
     (case escape s of None \<Rightarrow> None
      | Some (B, rest) \<Rightarrow>
          if B < 128 then Some ([char_of B], rest)
          else if B < 192 \<or> 248 \<le> B then None
          else
            let n = (if B < 224 then 2 else if B < 240 then 3 else 4 :: nat);
                lead = (if B < 224 then B - 192 else if B < 240 then B - 224 else B - 240)
            in (case continuation (n - 1) rest of None \<Rightarrow> None
                | Some (bs, rest') \<Rightarrow>
                    let V = codePoint lead bs in
                    if (n = 2 \<and> 128 \<le> V)
                       \<or> (n = 3 \<and> 2048 \<le> V \<and> \<not> (55296 \<le> V \<and> V \<le> 57343))
                       \<or> (n = 4 \<and> 65536 \<le> V \<and> V \<le> 1114111)
                    then Some (map char_of (B # bs), rest')
                    else None))"

lemma escape_shorter: "escape s = Some (b, rest) \<Longrightarrow> length rest < length s"
  by (induction s rule: escape.induct) (auto split: if_splits option.splits)

lemma continuation_shorter: "continuation n s = Some (bs, rest) \<Longrightarrow> length rest \<le> length s"
proof (induction n arbitrary: s bs rest)
  case 0
  then show ?case by simp
next
  case (Suc n)
  then show ?case
    by (fastforce split: option.splits if_splits dest: escape_shorter)
qed

lemma octets_shorter: "octets s = Some (bs, rest) \<Longrightarrow> length rest < length s"
  unfolding octets_def Let_def
  by (fastforce split: option.splits if_splits dest: escape_shorter continuation_shorter)

function decodeURIComponent :: "string \<Rightarrow> string option" where
  "decodeURIComponent [] = Some []"
| "decodeURIComponent (c # cs) =
     (if c \<noteq> CHR ''%'' then map_option ((#) c) (decodeURIComponent cs)
      else (case octets (c # cs) of None \<Rightarrow> None
            | Some (bs, rest) \<Rightarrow> map_option ((@) bs) (decodeURIComponent rest)))"
  by pat_completeness auto
termination
  by (relation "measure length") (auto dest: octets_shorter)

subsection \<open>The file type\<close>

fun typeMatch :: "string \<Rightarrow> string option" where
  \<comment> \<open>\<^verbatim>\<open>s.match(/\.([^.]*)$/)\<close>, tried from each position in turn; the result is group 1\<close>
  "typeMatch [] = None"
| "typeMatch (c # cs) =
     (if c = CHR ''.'' \<and> CHR ''.'' \<notin> set cs then Some cs else typeMatch cs)"

section \<open>The job of one image size\<close>

text \<open>
  The event names the bucket and the key of the uploaded object
  (\<^verbatim>\<open>event.Records[0].s3.bucket.name\<close> and \<^verbatim>\<open>event.Records[0].s3.object.key\<close>).
\<close>

record s3event =
  bucket_name :: string
  object_key :: string

record response =
  Body :: string
  ContentType :: string

text \<open>
  The object store and ImageMagick are outside the program. They are functions of their
  requests: an error of \<^verbatim>\<open>getObject\<close> or \<^verbatim>\<open>toBuffer\<close> is \<open>Inl\<close>, one of
  \<^verbatim>\<open>putObject\<close> is \<open>Some\<close>, and \<^verbatim>\<open>size\<close> yields no dimensions when it fails.
\<close>

record env =
  s3_getObject :: "string \<Rightarrow> string \<Rightarrow> string + response"
  gm_size :: "string \<Rightarrow> dims option"
  gm_toBuffer ::
    "string \<Rightarrow> rat \<times> rat \<times> rat \<times> rat \<Rightarrow> rat \<times> rat \<Rightarrow> string \<Rightarrow> string + string"
  s3_putObject :: "string \<Rightarrow> string \<Rightarrow> string \<Rightarrow> string \<Rightarrow> string \<Rightarrow> string option"

text \<open>The requests a job makes, in the order it makes them.\<close>

datatype effect =
    GetObject string string
  | GmSize string
  | GmToBuffer string "rat \<times> rat \<times> rat \<times> rat" "rat \<times> rat" string
  | PutObject string string string string string

text \<open>
  A job ends with \<^verbatim>\<open>callback(err)\<close>, with \<^verbatim>\<open>callback(null, message)\<close>, or with an
  exception nobody catches.
\<close>

datatype outcome = Failed string | Succeeded string | Thrown string

definition srcBucket_of :: "s3event \<Rightarrow> string" where
  \<comment> \<open>lines 62 and 63; a split has a first segment, see \<open>split_from_not_Nil\<close>\<close>
  "srcBucket_of event = (case split (bucket_name event) CHR ''/'' of [] \<Rightarrow> [] | b # _ \<Rightarrow> b)"

definition srcKey_of :: "s3event \<Rightarrow> string option" where
  \<comment> \<open>line 66\<close>
  "srcKey_of event = decodeURIComponent (replace_plus (object_key event))"

definition dstKey_of :: "imageSize \<Rightarrow> string \<Rightarrow> string" where
  \<comment> \<open>line 68\<close>
  "dstKey_of imageSize srcKey =
     name imageSize @ ''/'' @ to_string (index (rev (split srcKey CHR ''/'')) 1)
       @ ''/'' @ to_string (index (rev (split srcKey CHR ''/'')) 0)"

definition waterfall ::
  "env \<Rightarrow> imageSize \<Rightarrow> string \<Rightarrow> string \<Rightarrow> string \<Rightarrow> string \<Rightarrow> string
     \<Rightarrow> outcome \<times> effect list" where
  \<comment> \<open>lines 97 to 190: download, transform, upload, and the callback after them\<close>
  "waterfall env imageSize srcBucket srcKey dstBucket dstKey imageType =
     (case s3_getObject env srcBucket srcKey of
        Inl err \<Rightarrow> (Failed err, [GetObject srcBucket srcKey])
      | Inr response \<Rightarrow>
          (case gm_size env (Body response) of
             None \<Rightarrow>
               (Thrown ''TypeError'', [GetObject srcBucket srcKey, GmSize (Body response)])
           | Some sz \<Rightarrow>
               let g = transform_geometry imageSize sz;
                   cropArgs = (cropWidth g, cropHeight g, xCrop g, yCrop g);
                   resizeArgs = (resize_width g, resize_height g)
               in (case gm_toBuffer env (Body response) cropArgs resizeArgs imageType of
                     Inl err \<Rightarrow>
                       (Failed err,
                        [GetObject srcBucket srcKey, GmSize (Body response),
                         GmToBuffer (Body response) cropArgs resizeArgs imageType])
                   | Inr buffer \<Rightarrow>
                       (case s3_putObject env dstBucket dstKey buffer
                               (ContentType response) AWS_ACL of
                          Some err \<Rightarrow> Failed err
                        | None \<Rightarrow> Succeeded ''Success'',
                        [GetObject srcBucket srcKey, GmSize (Body response),
                         GmToBuffer (Body response) cropArgs resizeArgs imageType,
                         PutObject dstBucket dstKey buffer (ContentType response) AWS_ACL]))))"

definition iteratee :: "env \<Rightarrow> s3event \<Rightarrow> imageSize \<Rightarrow> outcome \<times> effect list" where
  \<comment> \<open>lines 56 to 191\<close>
  "iteratee env event imageSize =
     (let srcBucket = srcBucket_of event in
      case srcKey_of event of
        None \<Rightarrow> (Thrown ''URIError'', [])
      | Some srcKey \<Rightarrow>
          let dstBucket = srcBucket;
              dstKey = dstKey_of imageSize srcKey
          in if dstKey = srcKey
             then (Failed ''Source and destination buckets are the same.'', [])
             else (case typeMatch srcKey of
                     None \<Rightarrow> (Failed ''Could not determine the image type.'', [])
                   | Some imageType \<Rightarrow>
                       if imageType \<noteq> ''jpg'' \<and> imageType \<noteq> ''jpeg'' \<and> imageType \<noteq> ''png''
                       then (Succeeded
                               (imageType @ '' is not a resizeable image type. Nothing to do here.''),
                             [])
                       else waterfall env imageSize srcBucket srcKey dstBucket dstKey imageType))"

section \<open>The handler\<close>

text \<open>
  \<^verbatim>\<open>async.each\<close> starts the job of every image size, whatever becomes of the others,
  and calls its final callback once: with the first error, in the order the jobs end, or
  with nothing after the last job has succeeded.

  What the invoking environment gets: the handler's callback is called with a result,
  or the error is written to the log and the callback is never called, or an exception
  escapes. The exception of \<^verbatim>\<open>decodeURIComponent\<close> leaves the handler at the first
  job; that of a failed \<^verbatim>\<open>size\<close> is raised inside a callback, whatever the other jobs
  have reported.
\<close>

datatype invocation = Callback string | Logged_only string | Uncaught string

fun first_error :: "outcome list \<Rightarrow> string option" where
  \<comment> \<open>the argument \<^verbatim>\<open>async.each\<close> gives its final callback, the jobs' outcomes being
      listed in the order the jobs end\<close>
  "first_error [] = None"
| "first_error (Failed e # outs) = Some e"
| "first_error (_ # outs) = first_error outs"

fun first_thrown :: "outcome list \<Rightarrow> string option" where
  "first_thrown [] = None"
| "first_thrown (Thrown e # outs) = Some e"
| "first_thrown (_ # outs) = first_thrown outs"

definition each_callback :: "string option \<Rightarrow> invocation" where
  \<comment> \<open>lines 192 to 201\<close>
  "each_callback err =
     (case err of
        Some e \<Rightarrow> Logged_only (''Unable to resize image due to an error: '' @ e)
      | None \<Rightarrow> Callback ''All files have been processed successfully'')"

definition handler :: "env \<Rightarrow> s3event \<Rightarrow> imageSize list \<Rightarrow> invocation" where
  \<comment> \<open>lines 53 to 202; \<open>completion\<close> lists the image sizes in the order their jobs end\<close>
  "handler env event completion =
     (let outs = map (\<lambda>imageSize. fst (iteratee env event imageSize)) completion in
      case first_thrown outs of
        Some e \<Rightarrow> Uncaught e
      | None \<Rightarrow> each_callback (first_error outs))"

section \<open>An environment to run the model in\<close>

text \<open>
  Every object is a JPEG image of 1280 by 640 pixels, and every request succeeds.
\<close>

definition example_env :: env where
  "example_env =
     \<lparr>s3_getObject = (\<lambda>bucket key. Inr \<lparr>Body = ''JPEG 1280x640'', ContentType = ''image/jpeg''\<rparr>),
      gm_size = (\<lambda>body. Some \<lparr>size_width = 1280, size_height = 640\<rparr>),
      gm_toBuffer = (\<lambda>body cropArgs resizeArgs imageType. Inr ''resized''),
      s3_putObject = (\<lambda>bucket key body contentType acl. None)\<rparr>"

section \<open>Reading a job's requests\<close>

text \<open>The bucket of every request to the object store, and the target of every upload.\<close>

fun effect_bucket :: "effect \<Rightarrow> string option" where
  "effect_bucket (GetObject bucket key) = Some bucket"
| "effect_bucket (PutObject bucket key body contentType acl) = Some bucket"
| "effect_bucket _ = None"

definition buckets_used :: "effect list \<Rightarrow> string list" where
  "buckets_used effs = List.map_filter effect_bucket effs"

fun effect_target :: "effect \<Rightarrow> (string \<times> string) option" where
  "effect_target (PutObject bucket key body contentType acl) = Some (bucket, key)"
| "effect_target _ = None"

definition stores :: "effect list \<Rightarrow> (string \<times> string) list" where
  "stores effs = List.map_filter effect_target effs"

section \<open>The crop rectangle\<close>

text \<open>
  C5: for positive decoded dimensions and a size with \<^verbatim>\<open>crop\<close> set, the crop rectangle is
  a square whose side is the smaller of the two dimensions, centred in the image: the
  margin before it equals the margin after it. The landscape branch is taken exactly when
  the width is strictly greater than the height, and then the vertical offset is 0;
  otherwise the portrait branch is taken and the horizontal offset is 0. A square image
  has both offsets 0.
\<close>

theorem C5_crop_is_centered_square:
  fixes w h :: rat
  defines "g \<equiv> \<lambda>spec. transform_geometry spec \<lparr>size_width = w, size_height = h\<rparr>"
  assumes "0 < w" and "0 < h" and "crop spec"
  shows "cropWidth (g spec) = min w h \<and> cropHeight (g spec) = min w h
       \<and> (if w > h
           then yCrop (g spec) = 0 \<and> xCrop (g spec) = (w - h) / 2
              \<and> xCrop (g spec) = w - (xCrop (g spec) + cropWidth (g spec))
           else xCrop (g spec) = 0 \<and> yCrop (g spec) = (h - w) / 2
              \<and> yCrop (g spec) = h - (yCrop (g spec) + cropHeight (g spec)))
       \<and> (w = h \<longrightarrow> xCrop (g spec) = 0 \<and> yCrop (g spec) = 0)"
  using assms(4)
  by (simp add: g_def transform_geometry_def crop_rectangle_def Let_def min_def field_simps)

theorem C5_crop_is_centered_square_witness:
  "(0::rat) < 1000 \<and> (0::rat) < 1920 \<and> (0::rat) < 1080 \<and> crop (IMAGE_SIZES ! 5)
   \<and> cropWidth (transform_geometry (IMAGE_SIZES ! 5) \<lparr>size_width = 1000, size_height = 1000\<rparr>) = 1000
   \<and> cropHeight (transform_geometry (IMAGE_SIZES ! 5) \<lparr>size_width = 1000, size_height = 1000\<rparr>) = 1000
   \<and> xCrop (transform_geometry (IMAGE_SIZES ! 5) \<lparr>size_width = 1000, size_height = 1000\<rparr>) = 0
   \<and> yCrop (transform_geometry (IMAGE_SIZES ! 5) \<lparr>size_width = 1000, size_height = 1000\<rparr>) = 0
   \<and> cropWidth (transform_geometry (IMAGE_SIZES ! 5) \<lparr>size_width = 1920, size_height = 1080\<rparr>) = 1080
   \<and> cropHeight (transform_geometry (IMAGE_SIZES ! 5) \<lparr>size_width = 1920, size_height = 1080\<rparr>) = 1080
   \<and> xCrop (transform_geometry (IMAGE_SIZES ! 5) \<lparr>size_width = 1920, size_height = 1080\<rparr>) = 420
   \<and> yCrop (transform_geometry (IMAGE_SIZES ! 5) \<lparr>size_width = 1920, size_height = 1080\<rparr>) = 0
   \<and> cropWidth (transform_geometry (IMAGE_SIZES ! 5) \<lparr>size_width = 1080, size_height = 1920\<rparr>) = 1080
   \<and> cropHeight (transform_geometry (IMAGE_SIZES ! 5) \<lparr>size_width = 1080, size_height = 1920\<rparr>) = 1080
   \<and> xCrop (transform_geometry (IMAGE_SIZES ! 5) \<lparr>size_width = 1080, size_height = 1920\<rparr>) = 0
   \<and> yCrop (transform_geometry (IMAGE_SIZES ! 5) \<lparr>size_width = 1080, size_height = 1920\<rparr>) = 420"
proof -
  have c: "crop (IMAGE_SIZES ! 5)"
    by (simp add: IMAGE_SIZES_def)
  show ?thesis
    using C5_crop_is_centered_square [of 1000 1000 "IMAGE_SIZES ! 5"]
          C5_crop_is_centered_square [of 1920 1080 "IMAGE_SIZES ! 5"]
          C5_crop_is_centered_square [of 1080 1920 "IMAGE_SIZES ! 5"] c
    by simp
qed

section \<open>The crop offsets\<close>

lemma half_int_in_Ints: "(of_int d / 2 :: rat) \<in> \<int> \<longleftrightarrow> even d"
proof
  assume "(of_int d / 2 :: rat) \<in> \<int>"
  then obtain k :: int where "(of_int d / 2 :: rat) = of_int k"
    by (auto elim: Ints_cases)
  then have "(of_int d :: rat) = of_int (2 * k)" by simp
  then have "d = 2 * k" by (simp only: of_int_eq_iff)
  then show "even d" by simp
next
  assume "even d"
  then obtain k where "d = 2 * k" by (auto elim: evenE)
  then show "(of_int d / 2 :: rat) \<in> \<int>" by simp
qed

lemma half_int_floor:
  "(of_int d / 2 :: rat) = of_int (d div 2) + (if even d then 0 else 1 / 2)"
proof (cases "even d")
  case True
  then obtain k where "d = 2 * k" by (auto elim: evenE)
  then show ?thesis by simp
next
  case False
  then obtain k where "d = 2 * k + 1" by (auto elim: oddE)
  then show ?thesis by (simp add: field_simps)
qed

text \<open>
  C7, as the specification states it: the offset of a landscape image is
  \<open>(width - height) / 2\<close> by integer division, rounded down, hence an integer even when
  the difference is odd. The handler divides with \<^verbatim>\<open>/\<close>, which does not round: an image
  of 1921 by 1080 pixels gets the offset 420.5.
\<close>

theorem C7_offset_floor_counterexample:
  "xCrop (transform_geometry \<lparr>name = ''large_square'', width = 640, height = 640, crop = True\<rparr>
            \<lparr>size_width = of_int 1921, size_height = of_int 1080\<rparr>)
     \<noteq> of_int ((1921 - 1080) div 2)
   \<and> xCrop (transform_geometry \<lparr>name = ''large_square'', width = 640, height = 640, crop = True\<rparr>
            \<lparr>size_width = of_int 1921, size_height = of_int 1080\<rparr>) \<notin> \<int>"
proof -
  have x: "xCrop (transform_geometry \<lparr>name = ''large_square'', width = 640, height = 640, crop = True\<rparr>
            \<lparr>size_width = of_int 1921, size_height = of_int 1080\<rparr>) = 841 / 2"
    by (simp add: transform_geometry_def crop_rectangle_def Let_def)
  have n: "(841 / 2 :: rat) \<notin> \<int>"
  proof
    assume "(841 / 2 :: rat) \<in> \<int>"
    then obtain k :: int where k: "(841 / 2 :: rat) = of_int k"
      by (auto elim: Ints_cases)
    then have "(of_int (2 * k) :: rat) = of_int 841" by simp
    then have "2 * k = 841" by (simp only: of_int_eq_iff)
    then show False by presburger
  qed
  show ?thesis unfolding x using n by simp
qed

text \<open>
  C7, amended: for positive integer dimensions and a size with \<^verbatim>\<open>crop\<close> set, the offset
  along the longer side is half the difference of the dimensions, exactly: the rounded-down
  quotient when the difference is even, and one half more when it is odd. It is an integer
  exactly when the difference is even. The other offset is 0.
\<close>

theorem C7_offset_exact_half:
  fixes w h :: int
  defines "g \<equiv> \<lambda>spec. transform_geometry spec \<lparr>size_width = of_int w, size_height = of_int h\<rparr>"
  assumes "0 < w" and "0 < h" and "crop spec"
  shows "if w > h
         then xCrop (g spec) = of_int ((w - h) div 2) + (if even (w - h) then 0 else 1 / 2)
            \<and> yCrop (g spec) = 0 \<and> (xCrop (g spec) \<in> \<int> \<longleftrightarrow> even (w - h))
         else yCrop (g spec) = of_int ((h - w) div 2) + (if even (h - w) then 0 else 1 / 2)
            \<and> xCrop (g spec) = 0 \<and> (yCrop (g spec) \<in> \<int> \<longleftrightarrow> even (h - w))"
proof (cases "w > h")
  case True
  then have x: "xCrop (g spec) = of_int (w - h) / 2" and y: "yCrop (g spec) = 0"
    using assms(4) by (simp_all add: g_def transform_geometry_def crop_rectangle_def Let_def)
  have "xCrop (g spec) = of_int ((w - h) div 2) + (if even (w - h) then 0 else 1 / 2)"
    unfolding x by (rule half_int_floor)
  moreover have "xCrop (g spec) \<in> \<int> \<longleftrightarrow> even (w - h)"
    unfolding x by (rule half_int_in_Ints)
  ultimately show ?thesis
    using True y by (simp only: if_True simp_thms)
next
  case False
  then have y: "yCrop (g spec) = of_int (h - w) / 2" and x: "xCrop (g spec) = 0"
    using assms(4) by (simp_all add: g_def transform_geometry_def crop_rectangle_def Let_def)
  have "yCrop (g spec) = of_int ((h - w) div 2) + (if even (h - w) then 0 else 1 / 2)"
    unfolding y by (rule half_int_floor)
  moreover have "yCrop (g spec) \<in> \<int> \<longleftrightarrow> even (h - w)"
    unfolding y by (rule half_int_in_Ints)
  ultimately show ?thesis
    using False x by (simp only: if_False simp_thms)
qed

theorem C7_offset_exact_half_witness:
  "(0::int) < 1921 \<and> (0::int) < 1080 \<and> crop (IMAGE_SIZES ! 1)
   \<and> xCrop (transform_geometry (IMAGE_SIZES ! 1) \<lparr>size_width = of_int 1921, size_height = of_int 1080\<rparr>)
       = of_int 420 + 1 / 2
   \<and> yCrop (transform_geometry (IMAGE_SIZES ! 1) \<lparr>size_width = of_int 1921, size_height = of_int 1080\<rparr>) = 0"
proof -
  have c: "crop (IMAGE_SIZES ! 1)"
    by (simp add: IMAGE_SIZES_def)
  show ?thesis
    using C7_offset_exact_half [of 1921 1080 "IMAGE_SIZES ! 1"] c by simp
qed

section \<open>The scaling factor\<close>

text \<open>
  C1: with \<^verbatim>\<open>crop\<close> set, the scaling factor is the smaller of the quotients of the box by
  the crop rectangle's dimensions, and the output dimensions are that factor applied to
  the crop rectangle's dimensions, never to the dimensions before the crop. The handler
  does not do so: lines 144 to 149 take the dimensions of the decoded image, in both
  branches. For the size \<^verbatim>\<open>large_square\<close> and an image of 1280 by 640 pixels the crop
  rectangle is 640 by 640, whose factor is 1 and whose output is 640 by 640; the handler
  computes the factor 1/2 and asks for a resize of the square to 640 by 320.
\<close>

theorem C1_scaling_ignores_crop_rectangle:
  "crop \<lparr>name = ''large_square'', width = 640, height = 640, crop = True\<rparr>
   \<and> cropWidth (transform_geometry \<lparr>name = ''large_square'', width = 640, height = 640, crop = True\<rparr>
         \<lparr>size_width = 1280, size_height = 640\<rparr>) = 640
   \<and> cropHeight (transform_geometry \<lparr>name = ''large_square'', width = 640, height = 640, crop = True\<rparr>
         \<lparr>size_width = 1280, size_height = 640\<rparr>) = 640
   \<and> min (width \<lparr>name = ''large_square'', width = 640, height = 640, crop = True\<rparr>
           / cropWidth (transform_geometry \<lparr>name = ''large_square'', width = 640, height = 640, crop = True\<rparr>
               \<lparr>size_width = 1280, size_height = 640\<rparr>))
         (height \<lparr>name = ''large_square'', width = 640, height = 640, crop = True\<rparr>
           / cropHeight (transform_geometry \<lparr>name = ''large_square'', width = 640, height = 640, crop = True\<rparr>
               \<lparr>size_width = 1280, size_height = 640\<rparr>)) = 1
   \<and> scalingFactor (transform_geometry \<lparr>name = ''large_square'', width = 640, height = 640, crop = True\<rparr>
         \<lparr>size_width = 1280, size_height = 640\<rparr>) = 1 / 2
   \<and> resize_width (transform_geometry \<lparr>name = ''large_square'', width = 640, height = 640, crop = True\<rparr>
         \<lparr>size_width = 1280, size_height = 640\<rparr>) = 640
   \<and> resize_height (transform_geometry \<lparr>name = ''large_square'', width = 640, height = 640, crop = True\<rparr>
         \<lparr>size_width = 1280, size_height = 640\<rparr>) = 320"
  by (simp add: transform_geometry_def crop_rectangle_def Let_def)

section \<open>Splitting, indexing and matching\<close>

lemma split_from_not_Nil: "split_from sep cur s \<noteq> []"
  by (induction s arbitrary: cur) auto

lemma split_from_no_sep: "sep \<notin> set s \<Longrightarrow> split_from sep cur s = [cur @ s]"
  by (induction s arbitrary: cur) auto

lemma length_split_from: "length (split_from sep cur s) = Suc (length (filter (\<lambda>c. c = sep) s))"
  by (induction s arbitrary: cur) auto

lemma split_from_first:
  "(case split_from sep cur s of [] \<Rightarrow> [] | b # _ \<Rightarrow> b) = cur @ takeWhile (\<lambda>c. c \<noteq> sep) s"
  by (induction s arbitrary: cur) auto

lemma split_single_iff: "length (split s sep) < 2 \<longleftrightarrow> sep \<notin> set s"
proof -
  have "length (filter (\<lambda>c. c = sep) s) = 0 \<longleftrightarrow> sep \<notin> set s"
    by (auto simp: filter_empty_conv)
  then show ?thesis
    unfolding split_def length_split_from by auto
qed

lemma split_no_sep: "sep \<notin> set s \<Longrightarrow> split s sep = [s]"
  by (simp add: split_def split_from_no_sep)

text \<open>The segments hold no separator, and put together again they are the string.\<close>

lemma split_from_join:
  "concat (map ((#) sep) (split_from sep cur s)) = sep # cur @ s"
  by (induction s arbitrary: cur) auto

lemma split_from_segments:
  "sep \<notin> set cur \<Longrightarrow> seg \<in> set (split_from sep cur s) \<Longrightarrow> sep \<notin> set seg"
proof (induction s arbitrary: cur)
  case Nil
  then show ?case by simp
next
  case (Cons c cs)
  show ?case
  proof (cases "c = sep")
    case True
    with Cons.prems have "seg = cur \<or> seg \<in> set (split_from sep [] cs)" by simp
    then show ?thesis
    proof
      assume "seg = cur"
      with Cons.prems show ?thesis by simp
    next
      assume "seg \<in> set (split_from sep [] cs)"
      with Cons.IH [of "[]"] show ?thesis by simp
    qed
  next
    case False
    with Cons.prems have "seg \<in> set (split_from sep (cur @ [c]) cs)" by simp
    moreover from False Cons.prems have "sep \<notin> set (cur @ [c])" by auto
    ultimately show ?thesis using Cons.IH [of "cur @ [c]"] by blast
  qed
qed

lemma split_join: "concat (map ((#) sep) (split s sep)) = sep # s"
  by (simp add: split_def split_from_join)

lemma split_segments: "seg \<in> set (split s sep) \<Longrightarrow> sep \<notin> set seg"
  unfolding split_def by (rule split_from_segments [of sep "[]"]) simp_all




lemma typeMatch_None_iff: "typeMatch s = None \<longleftrightarrow> CHR ''.'' \<notin> set s"
  by (induction s) auto

lemma typeMatch_suffix: "CHR ''.'' \<notin> set t \<Longrightarrow> typeMatch (p @ ''.'' @ t) = Some t"
  by (induction p) auto

lemma typeMatch_Some_D:
  "typeMatch s = Some t \<Longrightarrow> \<exists>p. s = p @ ''.'' @ t \<and> CHR ''.'' \<notin> set t"
proof (induction s)
  case Nil
  then show ?case by simp
next
  case (Cons c cs)
  show ?case
  proof (cases "c = CHR ''.'' \<and> CHR ''.'' \<notin> set cs")
    case True
    with Cons.prems have "t = cs" by simp
    with True have "c # cs = [] @ ''.'' @ t \<and> CHR ''.'' \<notin> set t" by simp
    then show ?thesis by blast
  next
    case False
    with Cons.prems have "typeMatch cs = Some t" by auto
    from Cons.IH [OF this] obtain p where "cs = p @ ''.'' @ t" "CHR ''.'' \<notin> set t" by blast
    then have "c # cs = (c # p) @ ''.'' @ t \<and> CHR ''.'' \<notin> set t" by simp
    then show ?thesis by blast
  qed
qed

lemma srcBucket_of_takeWhile:
  "srcBucket_of event = takeWhile (\<lambda>c. c \<noteq> CHR ''/'') (bucket_name event)"
  using split_from_first [of "CHR ''/''" "[]" "bucket_name event"]
  by (simp add: srcBucket_of_def split_def)

section \<open>Decoding\<close>







lemma hexDigit_less: "hexDigit c = Some v \<Longrightarrow> v < 16"
  by (auto simp: hexDigit_def Let_def split: if_splits)




section \<open>The steps of a job\<close>

lemma iteratee_Some:
  "srcKey_of event = Some srcKey \<Longrightarrow>
   iteratee env event imageSize =
     (if dstKey_of imageSize srcKey = srcKey
      then (Failed ''Source and destination buckets are the same.'', [])
      else (case typeMatch srcKey of
              None \<Rightarrow> (Failed ''Could not determine the image type.'', [])
            | Some imageType \<Rightarrow>
                if imageType \<noteq> ''jpg'' \<and> imageType \<noteq> ''jpeg'' \<and> imageType \<noteq> ''png''
                then (Succeeded
                        (imageType @ '' is not a resizeable image type. Nothing to do here.''),
                      [])
                else waterfall env imageSize (srcBucket_of event) srcKey (srcBucket_of event)
                       (dstKey_of imageSize srcKey) imageType))"
  by (simp add: iteratee_def Let_def)

lemma iteratee_None:
  "srcKey_of event = None \<Longrightarrow> iteratee env event imageSize = (Thrown ''URIError'', [])"
  by (simp add: iteratee_def Let_def)

lemma waterfall_buckets:
  "set (buckets_used (snd (waterfall env imageSize b srcKey b dstKey imageType))) \<subseteq> {b}"
  by (auto simp: waterfall_def buckets_used_def List.map_filter_simps Let_def
           split: sum.splits option.splits)

lemma iteratee_buckets:
  "set (buckets_used (snd (iteratee env event imageSize))) \<subseteq> {srcBucket_of event}"
proof (cases "srcKey_of event")
  case None
  then show ?thesis by (simp add: iteratee_None buckets_used_def List.map_filter_simps)
next
  case (Some srcKey)
  have e: "set (buckets_used []) \<subseteq> {srcBucket_of event}"
    by (simp add: buckets_used_def List.map_filter_simps)
  show ?thesis
    unfolding iteratee_Some [OF Some]
    using e waterfall_buckets [of env imageSize "srcBucket_of event" srcKey]
    by (simp split: option.splits)
qed

lemma stores_Nil [simp]: "stores [] = []"
  by (simp add: stores_def List.map_filter_simps)



lemma skip_message_not_Success:
  "imageType @ '' is not a resizeable image type. Nothing to do here.'' \<noteq> ''Success''"
proof
  assume "imageType @ '' is not a resizeable image type. Nothing to do here.'' = ''Success''"
  then have "length (imageType @ '' is not a resizeable image type. Nothing to do here.'')
               = length ''Success''"
    by (rule arg_cong)
  then show False by simp
qed

lemma waterfall_success_buckets:
  "fst (waterfall env imageSize b srcKey b dstKey imageType) = Succeeded m \<Longrightarrow>
   buckets_used (snd (waterfall env imageSize b srcKey b dstKey imageType)) = [b, b]"
  by (auto simp: waterfall_def buckets_used_def List.map_filter_simps Let_def
           split: sum.splits option.splits)

lemma iteratee_success_buckets:
  assumes "fst (iteratee env event imageSize) = Succeeded ''Success''"
  shows "buckets_used (snd (iteratee env event imageSize)) = [srcBucket_of event, srcBucket_of event]"
proof (cases "srcKey_of event")
  case None
  with assms show ?thesis by (simp add: iteratee_None)
next
  case (Some srcKey)
  show ?thesis
    using assms waterfall_success_buckets [of env imageSize "srcBucket_of event" srcKey
                  "dstKey_of imageSize srcKey" _ "''Success''"]
    unfolding iteratee_Some [OF Some]
    by (auto simp: skip_message_not_Success split: if_splits option.splits)
qed

section \<open>The destination key\<close>



text \<open>
  C3: a decoded key with fewer than two segments makes the resolution of the destination
  key fail, and the job goes no further. Line 68 reads the second segment from the end
  of a key it takes to have the shape of its comment,
  \<^verbatim>\<open>/original/<randomString>/DarthVader.jpg\<close>, and nothing checks the shape: for the key
  \<^verbatim>\<open>file.jpg\<close> the job of the size \<^verbatim>\<open>thumb\<close> does not fail, it downloads the object and
  uploads the result under a key made with the text \<^verbatim>\<open>undefined\<close>.
\<close>

theorem C3_single_segment_key_is_stored:
  "srcKey_of \<lparr>bucket_name = ''bucket'', object_key = ''file.jpg''\<rparr> = Some ''file.jpg''
   \<and> length (split ''file.jpg'' CHR ''/'') < 2
   \<and> iteratee example_env \<lparr>bucket_name = ''bucket'', object_key = ''file.jpg''\<rparr> (IMAGE_SIZES ! 4) =
       (Succeeded ''Success'',
        [GetObject ''bucket'' ''file.jpg'', GmSize ''JPEG 1280x640'',
         GmToBuffer ''JPEG 1280x640'' (1280, 640, 0, 0) (120, 60) ''jpg'',
         PutObject ''bucket'' ''thumb/undefined/file.jpg'' ''resized'' ''image/jpeg''
           ''public-read''])"
  by code_simp

section \<open>The file type\<close>

text \<open>
  C6, as the specification states it: a key whose type, the text after the last dot, is
  none of \<^verbatim>\<open>jpg\<close>, \<^verbatim>\<open>jpeg\<close>, \<^verbatim>\<open>png\<close> makes the job end with success and a note,
  with no request. The comparison of the destination key with the source key comes first:
  for the key \<^verbatim>\<open>thumb/abc123/DarthVader.gif\<close> the job of the size \<^verbatim>\<open>thumb\<close> fails.
\<close>

theorem C6_unsupported_type_counterexample:
  "srcKey_of \<lparr>bucket_name = ''bucket'', object_key = ''thumb/abc123/DarthVader.gif''\<rparr>
     = Some ''thumb/abc123/DarthVader.gif''
   \<and> typeMatch ''thumb/abc123/DarthVader.gif'' = Some ''gif''
   \<and> iteratee example_env
         \<lparr>bucket_name = ''bucket'', object_key = ''thumb/abc123/DarthVader.gif''\<rparr>
         (IMAGE_SIZES ! 4)
       = (Failed ''Source and destination buckets are the same.'', [])"
  by code_simp

text \<open>
  C6, amended: for a decoded key that ends with a dot and a type without dots, the type
  being none of \<^verbatim>\<open>jpg\<close>, \<^verbatim>\<open>jpeg\<close>, \<^verbatim>\<open>png\<close> (compared as written, upper case
  included): when the destination key differs from the source key the job ends with
  success and the note that the type is not resizeable; when they are equal it fails with
  the message of line 77. It makes no request in either case.
\<close>

theorem C6_unsupported_type_skipped:
  assumes "srcKey_of event = Some srcKey"
      and "srcKey = p @ ''.'' @ imageType"
      and "CHR ''.'' \<notin> set imageType"
      and "imageType \<noteq> ''jpg''" and "imageType \<noteq> ''jpeg''" and "imageType \<noteq> ''png''"
  shows "iteratee env event imageSize =
           (if dstKey_of imageSize srcKey = srcKey
            then (Failed ''Source and destination buckets are the same.'', [])
            else (Succeeded
                    (imageType @ '' is not a resizeable image type. Nothing to do here.''),
                  []))"
proof -
  have "typeMatch srcKey = Some imageType"
    unfolding assms(2) using assms(3) by (rule typeMatch_suffix)
  then show ?thesis
    unfolding iteratee_Some [OF assms(1)] using assms(4-6) by simp
qed

theorem C6_unsupported_type_skipped_witness:
  "srcKey_of \<lparr>bucket_name = ''bucket'', object_key = ''original/abc123/DarthVader.gif''\<rparr>
     = Some ''original/abc123/DarthVader.gif''
   \<and> ''original/abc123/DarthVader.gif'' = ''original/abc123/DarthVader'' @ ''.'' @ ''gif''
   \<and> CHR ''.'' \<notin> set ''gif''
   \<and> iteratee example_env
         \<lparr>bucket_name = ''bucket'', object_key = ''original/abc123/DarthVader.gif''\<rparr>
         (IMAGE_SIZES ! 4)
       = (Succeeded ''gif is not a resizeable image type. Nothing to do here.'', [])"
proof -
  have a: "srcKey_of \<lparr>bucket_name = ''bucket'', object_key = ''original/abc123/DarthVader.gif''\<rparr>
     = Some ''original/abc123/DarthVader.gif''"
    by code_simp
  have b: "''original/abc123/DarthVader.gif'' = ''original/abc123/DarthVader'' @ ''.'' @ ''gif''"
    by simp
  have c: "CHR ''.'' \<notin> set ''gif''"
    by simp
  have d: "dstKey_of (IMAGE_SIZES ! 4) ''original/abc123/DarthVader.gif''
             \<noteq> ''original/abc123/DarthVader.gif''"
    by code_simp
  have "iteratee example_env
         \<lparr>bucket_name = ''bucket'', object_key = ''original/abc123/DarthVader.gif''\<rparr>
         (IMAGE_SIZES ! 4)
       = (Succeeded ''gif is not a resizeable image type. Nothing to do here.'', [])"
    using C6_unsupported_type_skipped [OF a b c, of example_env "IMAGE_SIZES ! 4"] d by simp
  with a b c show ?thesis by (simp only: simp_thms)
qed

text \<open>
  C9, as the specification states it: a key without a dot makes every job fail with
  \<^verbatim>\<open>Could not determine the image type.\<close> For the key \<^verbatim>\<open>thumb/abc123/DarthVader\<close> the
  job of the size \<^verbatim>\<open>thumb\<close> fails with another message, that of line 77.
\<close>

theorem C9_no_extension_counterexample:
  "srcKey_of \<lparr>bucket_name = ''bucket'', object_key = ''thumb/abc123/DarthVader''\<rparr>
     = Some ''thumb/abc123/DarthVader''
   \<and> CHR ''.'' \<notin> set ''thumb/abc123/DarthVader''
   \<and> iteratee example_env
         \<lparr>bucket_name = ''bucket'', object_key = ''thumb/abc123/DarthVader''\<rparr>
         (IMAGE_SIZES ! 4)
       = (Failed ''Source and destination buckets are the same.'', [])
   \<and> ''Source and destination buckets are the same.'' \<noteq> ''Could not determine the image type.''"
  by code_simp

text \<open>
  C9, amended: for a decoded key without a dot every job fails and makes no request, and it
  is not a skip. The message is \<^verbatim>\<open>Could not determine the image type.\<close> for a job whose
  destination key differs from the source key, and that of line 77 for a job whose
  destination key is the source key.
\<close>

theorem C9_no_extension_fails:
  assumes "srcKey_of event = Some srcKey"
      and "CHR ''.'' \<notin> set srcKey"
  shows "iteratee env event imageSize =
           (Failed (if dstKey_of imageSize srcKey = srcKey
                    then ''Source and destination buckets are the same.''
                    else ''Could not determine the image type.''),
            [])"
proof -
  from assms(2) have "typeMatch srcKey = None"
    by (simp add: typeMatch_None_iff)
  then show ?thesis
    unfolding iteratee_Some [OF assms(1)] by simp
qed

theorem C9_no_extension_fails_witness:
  "srcKey_of \<lparr>bucket_name = ''bucket'', object_key = ''original/abc123/DarthVader''\<rparr>
     = Some ''original/abc123/DarthVader''
   \<and> CHR ''.'' \<notin> set ''original/abc123/DarthVader''
   \<and> iteratee example_env
         \<lparr>bucket_name = ''bucket'', object_key = ''original/abc123/DarthVader''\<rparr>
         (IMAGE_SIZES ! 4)
       = (Failed ''Could not determine the image type.'', [])"
proof -
  have a: "srcKey_of \<lparr>bucket_name = ''bucket'', object_key = ''original/abc123/DarthVader''\<rparr>
     = Some ''original/abc123/DarthVader''"
    by code_simp
  have b: "CHR ''.'' \<notin> set ''original/abc123/DarthVader''"
    by simp
  have d: "dstKey_of (IMAGE_SIZES ! 4) ''original/abc123/DarthVader''
             \<noteq> ''original/abc123/DarthVader''"
    by code_simp
  have "iteratee example_env
         \<lparr>bucket_name = ''bucket'', object_key = ''original/abc123/DarthVader''\<rparr>
         (IMAGE_SIZES ! 4)
       = (Failed ''Could not determine the image type.'', [])"
    using C9_no_extension_fails [OF a b, of example_env "IMAGE_SIZES ! 4"] d by simp
  with a b show ?thesis by (simp only: simp_thms)
qed

section \<open>The bucket\<close>

text \<open>
  C10: the bucket the handler works on is the name in the event up to its first slash.
  Every request a job sends to the object store names that bucket, and a job that ends
  with \<^verbatim>\<open>Success\<close> has fetched from it and stored to it.
\<close>

theorem C10_bucket_truncated:
  "srcBucket_of event = takeWhile (\<lambda>c. c \<noteq> CHR ''/'') (bucket_name event)
   \<and> set (buckets_used (snd (iteratee env event imageSize)))
       \<subseteq> {takeWhile (\<lambda>c. c \<noteq> CHR ''/'') (bucket_name event)}
   \<and> (fst (iteratee env event imageSize) = Succeeded ''Success'' \<longrightarrow>
        buckets_used (snd (iteratee env event imageSize))
          = [takeWhile (\<lambda>c. c \<noteq> CHR ''/'') (bucket_name event),
             takeWhile (\<lambda>c. c \<noteq> CHR ''/'') (bucket_name event)])"
  using iteratee_buckets [of env event imageSize]
        iteratee_success_buckets [of env event imageSize]
  by (simp add: srcBucket_of_takeWhile)

theorem C10_bucket_truncated_witness:
  "takeWhile (\<lambda>c. c \<noteq> CHR ''/'') ''bucket/original/abc123'' = ''bucket''
   \<and> fst (iteratee example_env
        \<lparr>bucket_name = ''bucket/original/abc123'', object_key = ''original/abc123/DarthVader.jpg''\<rparr>
        (IMAGE_SIZES ! 4)) = Succeeded ''Success''
   \<and> buckets_used (snd (iteratee example_env
        \<lparr>bucket_name = ''bucket/original/abc123'', object_key = ''original/abc123/DarthVader.jpg''\<rparr>
        (IMAGE_SIZES ! 4)))
       = [''bucket'', ''bucket'']"
proof -
  have a: "fst (iteratee example_env
        \<lparr>bucket_name = ''bucket/original/abc123'', object_key = ''original/abc123/DarthVader.jpg''\<rparr>
        (IMAGE_SIZES ! 4)) = Succeeded ''Success''"
    by code_simp
  have b: "takeWhile (\<lambda>c. c \<noteq> CHR ''/'') ''bucket/original/abc123'' = ''bucket''"
    by simp
  show ?thesis
    using C10_bucket_truncated [of
        "\<lparr>bucket_name = ''bucket/original/abc123'', object_key = ''original/abc123/DarthVader.jpg''\<rparr>"
        example_env "IMAGE_SIZES ! 4"] a b
    by simp
qed

section \<open>The result of the invocation\<close>

lemma first_error_None_iff: "first_error outs = None \<longleftrightarrow> (\<forall>e. Failed e \<notin> set outs)"
  by (induction outs rule: first_error.induct) auto

lemma first_thrown_None_iff: "first_thrown outs = None \<longleftrightarrow> (\<forall>e. Thrown e \<notin> set outs)"
  by (induction outs rule: first_thrown.induct) auto

lemma handler_all_succeeded:
  assumes "\<forall>imageSize \<in> set completion. \<exists>m. fst (iteratee env event imageSize) = Succeeded m"
  shows "handler env event completion = Callback ''All files have been processed successfully''"
proof -
  let ?outs = "map (\<lambda>imageSize. fst (iteratee env event imageSize)) completion"
  from assms have "\<forall>e. Thrown e \<notin> set ?outs" and "\<forall>e. Failed e \<notin> set ?outs"
    by auto
  then have "first_thrown ?outs = None" and "first_error ?outs = None"
    unfolding first_thrown_None_iff first_error_None_iff by blast+
  then show ?thesis
    by (simp add: handler_def Let_def each_callback_def)
qed

lemma handler_failed_no_callback:
  assumes "imageSize \<in> set completion"
      and "fst (iteratee env event imageSize) = Failed e"
  shows "handler env event completion \<noteq> Callback m"
proof -
  let ?outs = "map (\<lambda>imageSize. fst (iteratee env event imageSize)) completion"
  from assms have "Failed e \<in> set ?outs" by force
  then have "first_error ?outs \<noteq> None"
    by (auto simp only: first_error_None_iff)
  then show ?thesis
    by (auto simp: handler_def Let_def each_callback_def split: option.splits)
qed

text \<open>
  C2: when every job succeeds the handler's callback gets the message of success
  (\<open>handler_all_succeeded\<close>). When a job fails the specification has the invocation
  report an error with the first failure's message; the handler writes that message to
  the log and never calls its callback (\<open>handler_failed_no_callback\<close>). For the key
  \<^verbatim>\<open>thumb/abc123/DarthVader.jpg\<close> the job of the size \<^verbatim>\<open>thumb\<close> fails, the five others
  upload their images, and the invocation ends without a result.
\<close>

theorem C2_failure_is_only_logged:
  "map (\<lambda>imageSize. fst (iteratee example_env
          \<lparr>bucket_name = ''bucket'', object_key = ''thumb/abc123/DarthVader.jpg''\<rparr> imageSize))
       IMAGE_SIZES
     = [Succeeded ''Success'', Succeeded ''Success'', Succeeded ''Success'', Succeeded ''Success'',
        Failed ''Source and destination buckets are the same.'', Succeeded ''Success'']
   \<and> concat (map (\<lambda>imageSize. stores (snd (iteratee example_env
          \<lparr>bucket_name = ''bucket'', object_key = ''thumb/abc123/DarthVader.jpg''\<rparr> imageSize)))
       IMAGE_SIZES)
     = [(''bucket'', ''large/abc123/DarthVader.jpg''),
        (''bucket'', ''large_square/abc123/DarthVader.jpg''),
        (''bucket'', ''medium/abc123/DarthVader.jpg''),
        (''bucket'', ''medium_square/abc123/DarthVader.jpg''),
        (''bucket'', ''thumb_square/abc123/DarthVader.jpg'')]
   \<and> handler example_env
        \<lparr>bucket_name = ''bucket'', object_key = ''thumb/abc123/DarthVader.jpg''\<rparr> IMAGE_SIZES
     = Logged_only
         ''Unable to resize image due to an error: Source and destination buckets are the same.''"
  by code_simp

end
